theory Spec2Isabelle
  imports Complex_Main
begin

section \<open>Values, errors and the driver\<close>

text \<open>
  The module \<open>src/sqlite/index.ts\<close> wraps the callback interface of the sqlite3 driver in
  promises. The driver is not part of the repository: it is a parameter \<open>drv\<close> of every
  operation below.

  JavaScript errors are objects of a class with a message. The wrapper creates \<open>TypeError\<close>
  and \<open>Error\<close> objects; the driver's callback receives \<open>err: Error | null\<close>.
\<close>

datatype error = TypeError string | Error string

text \<open>
  Arguments passed through the variadic operations. \<open>typeof\<close> is all the wrapper ever asks
  of them. Numbers are integers here: fractions, negative zero and rounding above \<open>2^53\<close>
  are outside this development.
\<close>

datatype jsval =
    UndefinedV
  | NullV
  | BooleanV bool
  | NumberV int
  | StringV string
  | FunctionV nat
  | ObjectV nat

datatype jstype = T_undefined | T_object | T_boolean | T_number | T_string | T_function

fun typeof :: "jsval \<Rightarrow> jstype" where
  "typeof UndefinedV = T_undefined"
| "typeof NullV = T_object"
| "typeof (BooleanV b) = T_boolean"
| "typeof (NumberV n) = T_number"
| "typeof (StringV s) = T_string"
| "typeof (FunctionV f) = T_function"
| "typeof (ObjectV x) = T_object"

text \<open>
  One invocation of a callback by the driver: the error argument, the \<open>lastID\<close> and
  \<open>changes\<close> properties of the \<open>this\<close> the callback is invoked on (read by \<open>run\<close>), and the
  second argument as \<open>get\<close> (a row or \<open>undefined\<close>), \<open>all\<close> (rows) and \<open>each\<close> (a count)
  receive it. Rows are opaque to the wrapper, hence the type parameter.
\<close>

record 'row reply =
  cb_err :: "error option"
  cb_lastID :: int
  cb_changes :: int
  cb_row :: "'row option"
  cb_rows :: "'row list"
  cb_nrows :: int

text \<open>
  What the wrapper asks of the driver. \<open>New\<close> is \<open>new sqlite.Database(filename, mode, cb)\<close>;
  \<open>OnDb c m args\<close> is method \<open>m\<close> applied to connection \<open>c\<close> with \<open>args\<close>, and \<open>OnStmt\<close> the
  same on a prepared statement. The callback pushed at the end of \<open>args\<close> is the channel on
  which the replies come back and is not listed among the arguments.
\<close>

datatype driver_method =
  M_close | M_run | M_get | M_all | M_each | M_exec | M_prepare | M_bind | M_reset | M_finalize

datatype call =
    New string jsval
  | OnDb nat driver_method "jsval list"
  | OnStmt nat driver_method "jsval list"

text \<open>
  The driver answers a call, given the calls made before it, with the list of invocations
  of the callback it was handed, in order. Its contract is that the list has one element;
  the wrapper's code does not depend on that, and neither do the definitions.
\<close>

type_synonym 'row driver = "call list \<Rightarrow> call \<Rightarrow> 'row reply list"

definition exactly_once :: "'row driver \<Rightarrow> call list \<Rightarrow> call \<Rightarrow> bool" where
  "exactly_once drv h c = (length (drv h c) = 1)"

text \<open>
  The state: the two private fields of the \<open>Database\<close> object (\<open>db\<close> is \<open>null\<close> or a
  connection, named by a number), and the calls made to the driver so far. A connection or
  a statement created by a call gets the position of that call as its name.
\<close>

record state =
  db :: "nat option"
  filename :: "string option"
  calls :: "call list"

definition issue :: "call \<Rightarrow> state \<Rightarrow> state" where
  "issue c st = st\<lparr>calls := calls st @ [c]\<rparr>"

section \<open>Promises\<close>

text \<open>
  A promise is represented by the calls made to its \<open>resolve\<close> and \<open>reject\<close> functions, in
  order. The first one settles it and the later ones are ignored by the runtime; the empty
  list is a promise that stays pending.
\<close>

datatype 'a settle = Resolve 'a | Reject error

type_synonym 'a promise = "'a settle list"

datatype 'a completion = Throws error | Returns 'a

definition Promise_reject :: "error \<Rightarrow> 'a promise" where
  "Promise_reject e = [Reject e]"

definition Promise_resolve :: "'a \<Rightarrow> 'a promise" where
  "Promise_resolve v = [Resolve v]"

text \<open>
  \<open>new Promise(executor)\<close> where the executor hands \<open>cb\<close> to the driver: every invocation
  of the callback runs \<open>cb\<close> on the state and makes one call to \<open>resolve\<close> or \<open>reject\<close>.
\<close>

fun callbacks :: "('r \<Rightarrow> state \<Rightarrow> 'a settle \<times> state) \<Rightarrow> 'r list \<Rightarrow> state \<Rightarrow> 'a promise \<times> state" where
  "callbacks cb [] st = ([], st)"
| "callbacks cb (r # rs) st =
     (case cb r st of (x, st') \<Rightarrow>
        (case callbacks cb rs st' of (xs, st'') \<Rightarrow> (x # xs, st'')))"

text \<open>
  A handler passed to \<open>then\<close> or \<open>catch\<close> returns a promise or throws; the promise made by
  \<open>then\<close>/\<open>catch\<close> follows what it returned, or is rejected with what it threw.
\<close>

definition adopt :: "'a promise completion \<times> state \<Rightarrow> 'a promise \<times> state" where
  "adopt r = (case r of (Throws e, st) \<Rightarrow> ([Reject e], st) | (Returns q, st) \<Rightarrow> (take 1 q, st))"

definition Promise_then ::
  "'a promise \<times> state \<Rightarrow> ('a \<Rightarrow> state \<Rightarrow> 'b promise completion \<times> state) \<Rightarrow> 'b promise \<times> state" where
  "Promise_then ps f =
     (case ps of
        ([], st) \<Rightarrow> ([], st)
      | (Resolve v # _, st) \<Rightarrow> adopt (f v st)
      | (Reject e # _, st) \<Rightarrow> ([Reject e], st))"

definition Promise_catch ::
  "'a promise \<times> state \<Rightarrow> (error \<Rightarrow> state \<Rightarrow> 'a promise completion \<times> state) \<Rightarrow> 'a promise \<times> state" where
  "Promise_catch ps f =
     (case ps of
        ([], st) \<Rightarrow> ([], st)
      | (Resolve v # _, st) \<Rightarrow> ([Resolve v], st)
      | (Reject e # _, st) \<Rightarrow> adopt (f e st))"

definition returns :: "'a \<times> state \<Rightarrow> 'a completion \<times> state" where
  "returns r = (case r of (a, st) \<Rightarrow> (Returns a, st))"

section \<open>The Database class\<close>

text \<open>The value \<open>this\<close> that \<open>open\<close>, \<open>close\<close> and \<open>exec\<close> resolve with.\<close>

datatype Database = This

text \<open>
  The flags \<open>sqlite.OPEN_READONLY\<close>, \<open>sqlite.OPEN_READWRITE\<close> and \<open>sqlite.OPEN_CREATE\<close> that
  the static getters of \<open>Database\<close> hand on. Their values belong to the driver, so they are
  a parameter of \<open>open\<close>.
\<close>

record open_flags =
  OPEN_READONLY :: int
  OPEN_READWRITE :: int
  OPEN_CREATE :: int

definition open_callback :: "nat \<Rightarrow> string \<Rightarrow> 'row reply \<Rightarrow> state \<Rightarrow> Database settle \<times> state" where
  "open_callback c fname r st =
     (case cb_err r of
        Some e \<Rightarrow> (Reject e, st)
      | None \<Rightarrow> (Resolve This, st\<lparr>db := Some c, filename := Some fname\<rparr>))"

text \<open>The mode handed to the driver: \<open>OPEN_READWRITE | OPEN_CREATE\<close> when none is given.\<close>

definition default_mode :: "open_flags \<Rightarrow> jsval \<Rightarrow> jsval" where
  "default_mode flags mode0 =
     (if typeof mode0 = T_undefined
      then NumberV (or (OPEN_READWRITE flags) (OPEN_CREATE flags))
      else mode0)"

definition Database_open ::
  "'row driver \<Rightarrow> open_flags \<Rightarrow> string \<Rightarrow> jsval \<Rightarrow> state \<Rightarrow> Database promise \<times> state" where
  "Database_open drv flags fname mode0 st =
     (let mode = default_mode flags mode0
      in if typeof mode0 \<noteq> T_undefined \<and> typeof mode0 \<noteq> T_number
         then (Promise_reject (TypeError ''Database.open: mode is not a number''), st)
         else if db st \<noteq> None
         then ([Reject (Error ''Database.open: database is already open'')], st)
         else callbacks (open_callback (length (calls st)) fname)
                (drv (calls st) (New fname mode)) (issue (New fname mode) st))"

definition close_callback :: "'row reply \<Rightarrow> state \<Rightarrow> Database settle \<times> state" where
  "close_callback r st =
     (case cb_err r of
        Some e \<Rightarrow> (Reject e, st)
      | None \<Rightarrow> (Resolve This, st\<lparr>db := None\<rparr>))"

text \<open>\<open>close()\<close>, the path of \<open>close\<close> when \<open>fn\<close> is absent.\<close>

definition Database_close :: "'row driver \<Rightarrow> state \<Rightarrow> Database promise \<times> state" where
  "Database_close drv st =
     (case db st of
        None \<Rightarrow> (Promise_reject (Error ''Database.close: database is not open''), st)
      | Some c \<Rightarrow>
          callbacks close_callback (drv (calls st) (OnDb c M_close [])) (issue (OnDb c M_close []) st))"

text \<open>
  \<open>close(fn)\<close>. The function \<open>fn\<close> is caller code: run on a state it throws or returns a
  promise, and leaves the state as it is when that promise settles.
\<close>

definition Database_close_fn ::
  "'row driver \<Rightarrow> (state \<Rightarrow> 't promise completion \<times> state) \<Rightarrow> state \<Rightarrow> 't promise completion \<times> state" where
  "Database_close_fn drv fn st =
     (if db st = None
      then (Returns (Promise_reject (Error ''Database.close: database is not open'')), st)
      else
        (case fn st of
           (Throws e, st1) \<Rightarrow> (Throws e, st1)
         | (Returns p, st1) \<Rightarrow>
             returns
               (Promise_catch
                  (Promise_then (p, st1)
                     (\<lambda>result st2. returns
                        (Promise_then (Database_close drv st2)
                           (\<lambda>_ st3. (Returns (Promise_resolve result), st3)))))
                  (\<lambda>err st2. returns
                     (Promise_then (Database_close drv st2)
                        (\<lambda>_ st3. (Returns (Promise_reject err), st3)))))))"

definition err_callback :: "'row reply \<Rightarrow> state \<Rightarrow> Database settle \<times> state" where
  "err_callback r st = (case cb_err r of Some e \<Rightarrow> (Reject e, st) | None \<Rightarrow> (Resolve This, st))"

definition Database_exec :: "'row driver \<Rightarrow> string \<Rightarrow> state \<Rightarrow> Database promise \<times> state" where
  "Database_exec drv sql st =
     (case db st of
        None \<Rightarrow> ([Reject (Error ''Database.exec: database is not open'')], st)
      | Some c \<Rightarrow>
          callbacks err_callback (drv (calls st) (OnDb c M_exec [StringV sql]))
            (issue (OnDb c M_exec [StringV sql]) st))"

definition transaction ::
  "'row driver \<Rightarrow> (state \<Rightarrow> 't promise completion \<times> state) \<Rightarrow> state \<Rightarrow> 't promise \<times> state" where
  "transaction drv fn st =
     Promise_then (Database_exec drv ''BEGIN TRANSACTION'' st)
       (\<lambda>_ st1.
          (case fn st1 of
             (Throws e, st2) \<Rightarrow> (Throws e, st2)
           | (Returns p, st2) \<Rightarrow>
               returns
                 (Promise_catch
                    (Promise_then (p, st2)
                       (\<lambda>result st3. returns
                          (Promise_then (Database_exec drv ''END TRANSACTION'' st3)
                             (\<lambda>_ st4. (Returns (Promise_resolve result), st4)))))
                    (\<lambda>err st3. returns
                       (Promise_then (Database_exec drv ''ROLLBACK TRANSACTION'' st3)
                          (\<lambda>_ st4. (Returns (Promise_reject err), st4)))))))"


text \<open>The object \<open>{lastID, changes}\<close> that \<open>run\<close> resolves with.\<close>

record run_result =
  lastID :: int
  changes :: int

definition run_callback :: "'row reply \<Rightarrow> state \<Rightarrow> run_result settle \<times> state" where
  "run_callback r st =
     (case cb_err r of
        Some e \<Rightarrow> (Reject e, st)
      | None \<Rightarrow> (Resolve \<lparr>lastID = cb_lastID r, changes = cb_changes r\<rparr>, st))"

definition get_callback :: "'row reply \<Rightarrow> state \<Rightarrow> 'row option settle \<times> state" where
  "get_callback r st = (case cb_err r of Some e \<Rightarrow> (Reject e, st) | None \<Rightarrow> (Resolve (cb_row r), st))"

definition all_callback :: "'row reply \<Rightarrow> state \<Rightarrow> 'row list settle \<times> state" where
  "all_callback r st = (case cb_err r of Some e \<Rightarrow> (Reject e, st) | None \<Rightarrow> (Resolve (cb_rows r), st))"

definition each_callback :: "'row reply \<Rightarrow> state \<Rightarrow> int settle \<times> state" where
  "each_callback r st = (case cb_err r of Some e \<Rightarrow> (Reject e, st) | None \<Rightarrow> (Resolve (cb_nrows r), st))"

definition Database_run :: "'row driver \<Rightarrow> jsval list \<Rightarrow> state \<Rightarrow> run_result promise \<times> state" where
  "Database_run drv args st =
     (case db st of
        None \<Rightarrow> ([Reject (Error ''Database.run: database is not open'')], st)
      | Some c \<Rightarrow>
          callbacks run_callback (drv (calls st) (OnDb c M_run args)) (issue (OnDb c M_run args) st))"

definition Database_get :: "'row driver \<Rightarrow> jsval list \<Rightarrow> state \<Rightarrow> 'row option promise \<times> state" where
  "Database_get drv args st =
     (case db st of
        None \<Rightarrow> ([Reject (Error ''Database.get: database is not open'')], st)
      | Some c \<Rightarrow>
          callbacks get_callback (drv (calls st) (OnDb c M_get args)) (issue (OnDb c M_get args) st))"

definition Database_all :: "'row driver \<Rightarrow> jsval list \<Rightarrow> state \<Rightarrow> 'row list promise \<times> state" where
  "Database_all drv args st =
     (case db st of
        None \<Rightarrow> ([Reject (Error ''Database.all: database is not open'')], st)
      | Some c \<Rightarrow>
          callbacks all_callback (drv (calls st) (OnDb c M_all args)) (issue (OnDb c M_all args) st))"

text \<open>\<open>each\<close> checks its arguments before it creates the promise, and throws.\<close>

definition Database_each :: "'row driver \<Rightarrow> jsval list \<Rightarrow> state \<Rightarrow> int promise completion \<times> state" where
  "Database_each drv args st =
     (if length args = 0 \<or> typeof (last args) \<noteq> T_function
      then (Throws (TypeError ''Database.each: last arg is not a function''), st)
      else
        (case db st of
           None \<Rightarrow> (Returns [Reject (Error ''Database.each: database is not open'')], st)
         | Some c \<Rightarrow>
             returns (callbacks each_callback (drv (calls st) (OnDb c M_each args))
                        (issue (OnDb c M_each args) st))))"

section \<open>The Statement class\<close>

text \<open>
  A \<open>Statement\<close> holds the driver's statement. Its constructor throws unless it is given
  an instance of \<open>sqlite.Statement\<close>; what the driver's \<open>prepare\<close> returns is one.
\<close>

record Statement =
  statement :: nat

definition prepare_callback :: "nat \<Rightarrow> 'row reply \<Rightarrow> state \<Rightarrow> Statement settle \<times> state" where
  "prepare_callback s r st =
     (case cb_err r of Some e \<Rightarrow> (Reject e, st) | None \<Rightarrow> (Resolve \<lparr>statement = s\<rparr>, st))"

definition Database_prepare :: "'row driver \<Rightarrow> jsval list \<Rightarrow> state \<Rightarrow> Statement promise \<times> state" where
  "Database_prepare drv args st =
     (case db st of
        None \<Rightarrow> ([Reject (Error ''Database.prepare: database is not open'')], st)
      | Some c \<Rightarrow>
          callbacks (prepare_callback (length (calls st))) (drv (calls st) (OnDb c M_prepare args))
            (issue (OnDb c M_prepare args) st))"

definition bind_callback :: "Statement \<Rightarrow> 'row reply \<Rightarrow> state \<Rightarrow> Statement settle \<times> state" where
  "bind_callback this r st = (case cb_err r of Some e \<Rightarrow> (Reject e, st) | None \<Rightarrow> (Resolve this, st))"

definition Statement_bind :: "'row driver \<Rightarrow> Statement \<Rightarrow> jsval list \<Rightarrow> state \<Rightarrow> Statement promise \<times> state" where
  "Statement_bind drv this args st =
     callbacks (bind_callback this) (drv (calls st) (OnStmt (statement this) M_bind args))
       (issue (OnStmt (statement this) M_bind args) st)"

text \<open>The callback of \<open>reset\<close> takes no parameter: \<open>() => { resolve(this); }\<close>.\<close>

definition reset_callback :: "Statement \<Rightarrow> 'row reply \<Rightarrow> state \<Rightarrow> Statement settle \<times> state" where
  "reset_callback this r st = (Resolve this, st)"

definition Statement_reset :: "'row driver \<Rightarrow> Statement \<Rightarrow> state \<Rightarrow> Statement promise \<times> state" where
  "Statement_reset drv this st =
     callbacks (reset_callback this) (drv (calls st) (OnStmt (statement this) M_reset []))
       (issue (OnStmt (statement this) M_reset []) st)"

definition finalize_callback :: "'row reply \<Rightarrow> state \<Rightarrow> unit settle \<times> state" where
  "finalize_callback r st = (case cb_err r of Some e \<Rightarrow> (Reject e, st) | None \<Rightarrow> (Resolve (), st))"

definition Statement_finalize :: "'row driver \<Rightarrow> Statement \<Rightarrow> state \<Rightarrow> unit promise \<times> state" where
  "Statement_finalize drv this st =
     callbacks finalize_callback (drv (calls st) (OnStmt (statement this) M_finalize []))
       (issue (OnStmt (statement this) M_finalize []) st)"

definition Statement_run :: "'row driver \<Rightarrow> Statement \<Rightarrow> jsval list \<Rightarrow> state \<Rightarrow> run_result promise \<times> state" where
  "Statement_run drv this args st =
     callbacks run_callback (drv (calls st) (OnStmt (statement this) M_run args))
       (issue (OnStmt (statement this) M_run args) st)"

definition Statement_get :: "'row driver \<Rightarrow> Statement \<Rightarrow> jsval list \<Rightarrow> state \<Rightarrow> 'row option promise \<times> state" where
  "Statement_get drv this args st =
     callbacks get_callback (drv (calls st) (OnStmt (statement this) M_get args))
       (issue (OnStmt (statement this) M_get args) st)"

definition Statement_all :: "'row driver \<Rightarrow> Statement \<Rightarrow> jsval list \<Rightarrow> state \<Rightarrow> 'row list promise \<times> state" where
  "Statement_all drv this args st =
     callbacks all_callback (drv (calls st) (OnStmt (statement this) M_all args))
       (issue (OnStmt (statement this) M_all args) st)"

definition Statement_each :: "'row driver \<Rightarrow> Statement \<Rightarrow> jsval list \<Rightarrow> state \<Rightarrow> int promise completion \<times> state" where
  "Statement_each drv this args st =
     (if length args = 0 \<or> typeof (last args) \<noteq> T_function
      then (Throws (TypeError ''Statement.each: last arg is not a function''), st)
      else returns (callbacks each_callback (drv (calls st) (OnStmt (statement this) M_each args))
                      (issue (OnStmt (statement this) M_each args) st)))"


section \<open>Strings and numbers of the query helper\<close>

text \<open>\<open>Array.prototype.join\<close> and \<open>String.prototype.split\<close> with a separator of one character.\<close>

fun join :: "string \<Rightarrow> string list \<Rightarrow> string" where
  "join sep [] = []"
| "join sep [x] = x"
| "join sep (x # y # ys) = x @ sep @ join sep (y # ys)"

fun split :: "char \<Rightarrow> string \<Rightarrow> string list" where
  "split c [] = [[]]"
| "split c (x # xs) =
     (if x = c then [] # split c xs
      else (case split c xs of [] \<Rightarrow> [[x]] | w # ws \<Rightarrow> (x # w) # ws))"

text \<open>
  A JavaScript number, as far as the query helper can produce one: an integer, \<open>NaN\<close>
  (from \<open>parseInt\<close>) or an infinity (from a division by zero). The integers are exact and
  unbounded; the rounding of a double above \<open>2^53\<close>, its exponent notation from \<open>10^21\<close> on
  and the sign of zero are not represented.
\<close>

datatype jsnum = Num int | NaN | PosInfinity | NegInfinity

fun js_sub :: "jsnum \<Rightarrow> jsnum \<Rightarrow> jsnum" where
  "js_sub (Num a) (Num b) = Num (a - b)"
| "js_sub NaN y = NaN"
| "js_sub x NaN = NaN"
| "js_sub PosInfinity PosInfinity = NaN"
| "js_sub NegInfinity NegInfinity = NaN"
| "js_sub PosInfinity y = PosInfinity"
| "js_sub NegInfinity y = NegInfinity"
| "js_sub x PosInfinity = NegInfinity"
| "js_sub x NegInfinity = PosInfinity"

definition js_neg :: "jsnum \<Rightarrow> jsnum" where
  "js_neg x = (case x of Num a \<Rightarrow> Num (- a) | NaN \<Rightarrow> NaN
               | PosInfinity \<Rightarrow> NegInfinity | NegInfinity \<Rightarrow> PosInfinity)"

fun js_mul :: "jsnum \<Rightarrow> jsnum \<Rightarrow> jsnum" where
  "js_mul (Num a) (Num b) = Num (a * b)"
| "js_mul NaN y = NaN"
| "js_mul x NaN = NaN"
| "js_mul (Num a) y = (if a = 0 then NaN else if 0 < a then y else js_neg y)"
| "js_mul x (Num b) = (if b = 0 then NaN else if 0 < b then x else js_neg x)"
| "js_mul PosInfinity y = y"
| "js_mul NegInfinity y = js_neg y"

text \<open>\<open>Math.ceil(a / y)\<close> for an integer \<open>a\<close>.\<close>

definition Math_ceil_div :: "int \<Rightarrow> jsnum \<Rightarrow> jsnum" where
  "Math_ceil_div a y =
     (case y of
        Num b \<Rightarrow>
          (if b = 0 then (if 0 < a then PosInfinity else if a < 0 then NegInfinity else NaN)
           else Num (ceiling (real_of_int a / real_of_int b)))
      | NaN \<Rightarrow> NaN
      | PosInfinity \<Rightarrow> Num 0
      | NegInfinity \<Rightarrow> Num 0)"

text \<open>The decimal notation of a number, as a template literal inserts it.\<close>

definition digit :: "nat \<Rightarrow> char" where
  "digit d =
     (if d = 0 then CHR ''0'' else if d = 1 then CHR ''1'' else if d = 2 then CHR ''2''
      else if d = 3 then CHR ''3'' else if d = 4 then CHR ''4'' else if d = 5 then CHR ''5''
      else if d = 6 then CHR ''6'' else if d = 7 then CHR ''7'' else if d = 8 then CHR ''8''
      else CHR ''9'')"

fun string_of_nat :: "nat \<Rightarrow> string" where
  "string_of_nat n =
     (if n < 10 then [digit n] else string_of_nat (n div 10) @ [digit (n mod 10)])"

declare string_of_nat.simps [simp del]

definition String_jsnum :: "jsnum \<Rightarrow> string" where
  "String_jsnum x =
     (case x of
        Num a \<Rightarrow> (if a < 0 then ''-'' @ string_of_nat (nat (- a)) else string_of_nat (nat a))
      | NaN \<Rightarrow> ''NaN''
      | PosInfinity \<Rightarrow> ''Infinity''
      | NegInfinity \<Rightarrow> ''-Infinity'')"

text \<open>
  \<open>parseInt(s, 10)\<close>: leading white space is skipped, then an optional sign, then the
  longest run of decimal digits; without a digit the result is \<open>NaN\<close>. The white space
  recognised here is that of ASCII.
\<close>

definition is_space :: "char \<Rightarrow> bool" where
  "is_space c = (c \<in> set [CHR '' '', CHR 0x09, CHR 0x0A, CHR 0x0B, CHR 0x0C, CHR 0x0D])"

definition is_digit :: "char \<Rightarrow> bool" where
  "is_digit c = (c \<in> set ''0123456789'')"

definition digit_value :: "char \<Rightarrow> int" where
  "digit_value c = int (of_char c) - 48"

definition digits_value :: "string \<Rightarrow> int" where
  "digits_value ds = foldl (\<lambda>a c. 10 * a + digit_value c) 0 ds"

definition parseInt :: "string \<Rightarrow> jsnum" where
  "parseInt s =
     (let s1 = dropWhile is_space s;
          neg = (case s1 of [] \<Rightarrow> False | c # _ \<Rightarrow> c = CHR ''-'');
          s2 = (case s1 of [] \<Rightarrow> [] | c # r \<Rightarrow> if c = CHR ''-'' \<or> c = CHR ''+'' then r else s1);
          ds = takeWhile is_digit s2
      in if ds = [] then NaN
         else Num (if neg then - digits_value ds else digits_value ds))"

section \<open>The query helper\<close>

record QueryOptions =
  key :: "string option"
  condition :: "string option"
  page :: "string option"
  pagecap :: "string option"

record 'row QueryResult =
  allcount :: "int option"
  page :: "jsnum option"
  pagecap :: "jsnum option"
  pagecount :: "jsnum option"
  rows :: "'row list"

text \<open>A string or \<open>undefined\<close> used as a condition: \<open>undefined\<close> and \<open>""\<close> are falsy.\<close>

definition truthy :: "string option \<Rightarrow> bool" where
  "truthy s = (case s of None \<Rightarrow> False | Some x \<Rightarrow> x \<noteq> [])"

text \<open>
  Lines 238 to 254 of \<open>queryWithSelect\<close>: the local variable \<open>condition\<close>, and \<open>sql\<close> before the
  pagination clause is added.
\<close>

definition query_condition :: "QueryOptions \<Rightarrow> string list \<Rightarrow> string option" where
  \<open>query_condition options keys =
     (case key options of
        None \<Rightarrow> None
      | Some k \<Rightarrow>
          if k \<noteq> [] \<and> length keys > 0
          then Some (''('' @ join '' OR '' (map (\<lambda>c. c @ '' LIKE "%'' @ k @ ''%"'') keys) @ '')'')
          else None)\<close>

definition query_sql :: "QueryOptions \<Rightarrow> string \<Rightarrow> string list \<Rightarrow> string \<Rightarrow> string" where
  "query_sql options table keys select =
     (let sql = ''SELECT '' @ select @ '' FROM '' @ table;
          cond = query_condition options keys;
          sql = (case cond of
                   None \<Rightarrow> sql
                 | Some c \<Rightarrow> if c \<noteq> [] then sql @ '' WHERE '' @ c else sql)
      in case QueryOptions.condition options of
           None \<Rightarrow> sql
         | Some oc \<Rightarrow>
             if oc \<noteq> []
             then (if truthy cond then sql @ '' AND '' @ oc else sql @ '' WHERE '' @ oc)
             else sql)"

text \<open>Lines 266 to 271: the statement that counts.\<close>

definition query_sqlcount :: "QueryOptions \<Rightarrow> string \<Rightarrow> string list \<Rightarrow> string" where
  "query_sqlcount options table keys =
     (let sqlcount = ''SELECT COUNT(*) AS count FROM '' @ table
      in case query_condition options keys of
           None \<Rightarrow> sqlcount @ '' WHERE tile_data IS NOT NULL''
         | Some c \<Rightarrow>
             if c \<noteq> [] then sqlcount @ '' WHERE '' @ c
             else sqlcount @ '' WHERE tile_data IS NOT NULL'')"

text \<open>
  \<open>queryWithSelect\<close> is an \<open>async\<close> function: a \<open>throw\<close> in its body rejects the promise it
  returns, and each \<open>await\<close> continues with the value of a promise or rejects with its
  error. The parameter \<open>count_of\<close> reads the property \<open>count\<close> of the row that the count
  statement returns, a number or \<open>undefined\<close> as \<open>QueryResult\<close> declares \<open>allcount\<close>; the
  row itself may be \<open>undefined\<close>, and reading a property of \<open>undefined\<close> throws.
\<close>

definition queryWithSelect ::
  "'row driver \<Rightarrow> ('row \<Rightarrow> int option) \<Rightarrow> QueryOptions option \<Rightarrow> string \<Rightarrow> string list \<Rightarrow> string
     \<Rightarrow> state \<Rightarrow> 'row QueryResult promise \<times> state" where
  "queryWithSelect drv count_of options0 table keys select st =
     (if db st = None then (Promise_reject (Error ''database not connected''), st)
      else
        (let options = (case options0 of
                          None \<Rightarrow> \<lparr>key = None, condition = None, page = None, pagecap = None\<rparr>
                        | Some opts \<Rightarrow> opts);
             sql = query_sql options table keys select;
             ret = \<lparr>allcount = None, page = None, pagecap = None, pagecount = None, rows = []\<rparr>
         in if truthy (QueryOptions.page options)
            then
              (let page = parseInt (case QueryOptions.page options of None \<Rightarrow> [] | Some s \<Rightarrow> s);
                   pagecap = parseInt (if truthy (QueryOptions.pagecap options)
                                       then (case QueryOptions.pagecap options of None \<Rightarrow> [] | Some s \<Rightarrow> s)
                                       else ''10'');
                   offset = js_mul (js_sub page (Num 1)) pagecap;
                   sql = sql @ '' LIMIT '' @ String_jsnum pagecap @ '' OFFSET '' @ String_jsnum offset;
                   sqlcount = query_sqlcount options table keys
               in Promise_then (Database_get drv [StringV sqlcount] st)
                    (\<lambda>countResult st1.
                       (case countResult of
                          None \<Rightarrow>
                            (Throws (TypeError ''Cannot read properties of undefined (reading 'count')''), st1)
                        | Some r \<Rightarrow>
                            (let ret = ret\<lparr>allcount := count_of r\<rparr>;
                                 ret = ret\<lparr>page := Some page\<rparr>;
                                 ret = ret\<lparr>pagecap := Some pagecap\<rparr>;
                                 ret = ret\<lparr>pagecount := Some (Math_ceil_div
                                          (case allcount ret of None \<Rightarrow> 0 | Some n \<Rightarrow> n) pagecap)\<rparr>
                             in returns
                                  (Promise_then (Database_all drv [StringV sql] st1)
                                     (\<lambda>rs st2. (Returns (Promise_resolve (ret\<lparr>rows := rs\<rparr>)), st2)))))))
            else
              Promise_then (Database_all drv [StringV sql] st)
                (\<lambda>rs st1. (Returns (Promise_resolve (ret\<lparr>rows := rs\<rparr>)), st1))))"

definition query ::
  "'row driver \<Rightarrow> ('row \<Rightarrow> int option) \<Rightarrow> QueryOptions option \<Rightarrow> string \<Rightarrow> string list
     \<Rightarrow> state \<Rightarrow> 'row QueryResult promise \<times> state" where
  "query drv count_of options table keys st = queryWithSelect drv count_of options table keys ''*'' st"

text \<open>\<open>delete(id, table)\<close>.\<close>

definition void_callback :: "'row reply \<Rightarrow> state \<Rightarrow> unit settle \<times> state" where
  "void_callback r st = (case cb_err r of Some e \<Rightarrow> (Reject e, st) | None \<Rightarrow> (Resolve (), st))"

text \<open>Lines 296 to 299: the statement that \<open>delete\<close> builds.\<close>

definition delete_sql :: "string \<Rightarrow> string \<Rightarrow> string" where
  \<open>delete_sql ident table =
     (let ids = split CHR '','' ident;
          idstr = join '','' (map (\<lambda>d. ''"'' @ d @ ''"'') ids)
      in ''DELETE FROM '' @ table @ '' WHERE _id IN ('' @ idstr @ '')'')\<close>

definition Database_delete :: "'row driver \<Rightarrow> string \<Rightarrow> string \<Rightarrow> state \<Rightarrow> unit promise \<times> state" where
  "Database_delete drv ident table st =
     (case db st of
        None \<Rightarrow> (Promise_reject (Error ''database not connected''), st)
      | Some c \<Rightarrow>
          adopt (returns (callbacks void_callback (drv (calls st) (OnDb c M_exec [StringV (delete_sql ident table)]))
                            (issue (OnDb c M_exec [StringV (delete_sql ident table)]) st))))"

section \<open>Drivers, states and caller functions to run the definitions on\<close>

text \<open>The driver answers the call \<open>c\<close>, made in state \<open>st\<close>, by one invocation \<open>r\<close> of the callback.\<close>

definition answers :: "'row driver \<Rightarrow> state \<Rightarrow> call \<Rightarrow> 'row reply \<Rightarrow> bool" where
  "answers drv st c r = (drv (calls st) c = [r])"

text \<open>The errors that the specification calls \<open>NotOpen\<close>, by the operation that reports them.\<close>

definition NotOpen :: "string \<Rightarrow> error" where
  "NotOpen operation = Error (''Database.'' @ operation @ '': database is not open'')"

definition ok_reply :: "'row reply" where
  "ok_reply = \<lparr>cb_err = None, cb_lastID = 0, cb_changes = 0, cb_row = None, cb_rows = [], cb_nrows = 0\<rparr>"

definition error_reply :: "error \<Rightarrow> 'row reply" where
  "error_reply e = \<lparr>cb_err = Some e, cb_lastID = 0, cb_changes = 0, cb_row = None, cb_rows = [], cb_nrows = 0\<rparr>"

definition driver_ok :: "'row driver" where
  "driver_ok h c = [ok_reply]"

definition driver_failing :: "error \<Rightarrow> 'row driver" where
  "driver_failing e h c = [error_reply e]"

definition driver_failing_on :: "call \<Rightarrow> error \<Rightarrow> 'row driver" where
  "driver_failing_on c0 e h c = (if c = c0 then [error_reply e] else [ok_reply])"

text \<open>A driver whose rows are integers: every row it passes is the number \<open>n\<close>.\<close>

definition count_reply :: "int \<Rightarrow> int reply" where
  "count_reply n = \<lparr>cb_err = None, cb_lastID = 0, cb_changes = 0, cb_row = Some n, cb_rows = [n], cb_nrows = 1\<rparr>"

definition driver_counting :: "int \<Rightarrow> int driver" where
  "driver_counting n h c = [count_reply n]"

text \<open>The values that the flags have in sqlite3.\<close>

definition sqlite_flags :: open_flags where
  "sqlite_flags = \<lparr>OPEN_READONLY = 1, OPEN_READWRITE = 2, OPEN_CREATE = 4\<rparr>"

definition closed_state :: state where
  "closed_state = \<lparr>db = None, filename = None, calls = []\<rparr>"

definition open_state :: state where
  "open_state = \<lparr>db = Some 0, filename = Some ''test.db'', calls = [New ''test.db'' (NumberV 6)]\<rparr>"

definition fn_rejecting :: "error \<Rightarrow> state \<Rightarrow> nat promise completion \<times> state" where
  "fn_rejecting e st = (Returns [Reject e], st)"

definition fn_resolving :: "nat \<Rightarrow> state \<Rightarrow> nat promise completion \<times> state" where
  "fn_resolving v st = (Returns [Resolve v], st)"

definition fn_throwing :: "error \<Rightarrow> state \<Rightarrow> nat promise completion \<times> state" where
  "fn_throwing e st = (Throws e, st)"

text \<open>A caller function that runs a statement before its promise resolves.\<close>

definition fn_insert :: "state \<Rightarrow> nat promise completion \<times> state" where
  "fn_insert st = (Returns [Resolve 1], issue (OnDb 0 M_run [StringV ''INSERT INTO t VALUES (1)'']) st)"

abbreviation BEGIN_TRANSACTION :: "nat \<Rightarrow> call" where
  "BEGIN_TRANSACTION c \<equiv> OnDb c M_exec [StringV ''BEGIN TRANSACTION'']"

abbreviation ROLLBACK_TRANSACTION :: "nat \<Rightarrow> call" where
  "ROLLBACK_TRANSACTION c \<equiv> OnDb c M_exec [StringV ''ROLLBACK TRANSACTION'']"

section \<open>Auxiliary facts\<close>

lemma length_callbacks: "length (fst (callbacks cb rs st)) = length rs"
proof (induction rs arbitrary: st)
  case Nil
  show ?case by simp
next
  case (Cons r rs)
  obtain x st1 where a: "cb r st = (x, st1)" by (cases "cb r st")
  obtain xs st2 where b: "callbacks cb rs st1 = (xs, st2)" by (cases "callbacks cb rs st1")
  from Cons [of st1] b have "length xs = length rs" by simp
  with a b show ?case by simp
qed

lemmas chain_defs =
  Promise_then_def Promise_catch_def adopt_def returns_def Promise_reject_def Promise_resolve_def

lemmas demo_defs =
  answers_def ok_reply_def error_reply_def driver_ok_def driver_failing_def driver_failing_on_def
  count_reply_def driver_counting_def sqlite_flags_def closed_state_def open_state_def
  fn_rejecting_def fn_resolving_def fn_throwing_def fn_insert_def issue_def

section \<open>Transactions\<close>

text \<open>
  C1 (as amended). \<open>transaction(fn)\<close> on an open handle, where \<open>BEGIN TRANSACTION\<close> succeeds,
  \<open>fn\<close> returns a promise that rejects with \<open>e\<close> and the handle still has a connection then:
  \<open>ROLLBACK TRANSACTION\<close> is issued to the driver, and the promise of \<open>transaction\<close> rejects
  with \<open>e\<close> when the rollback succeeds, with the driver's error of the rollback when it fails.
\<close>

theorem transaction_rollback_on_rejection:
  assumes "db st = Some c"
    and "answers drv st (BEGIN_TRANSACTION c) r0" and "cb_err r0 = None"
    and "fn (issue (BEGIN_TRANSACTION c) st) = (Returns (Reject e # ps), st2)"
    and "db st2 = Some c2"
    and "answers drv st2 (ROLLBACK_TRANSACTION c2) r1"
  shows "transaction drv fn st =
           ([Reject (case cb_err r1 of None \<Rightarrow> e | Some e2 \<Rightarrow> e2)],
            issue (ROLLBACK_TRANSACTION c2) st2)"
  using assms
  by (simp add: transaction_def Database_exec_def answers_def err_callback_def chain_defs
      split: option.splits)

theorem transaction_rollback_on_rejection_witness:
  "db open_state = Some 0
   \<and> answers (driver_ok :: unit driver) open_state (BEGIN_TRANSACTION 0) ok_reply
   \<and> fn_rejecting (Error ''boom'') (issue (BEGIN_TRANSACTION 0) open_state)
       = (Returns [Reject (Error ''boom'')], issue (BEGIN_TRANSACTION 0) open_state)
   \<and> transaction (driver_ok :: unit driver) (fn_rejecting (Error ''boom'')) open_state
       = ([Reject (Error ''boom'')],
          issue (ROLLBACK_TRANSACTION 0) (issue (BEGIN_TRANSACTION 0) open_state))"
proof -
  let ?st1 = "issue (BEGIN_TRANSACTION 0) open_state"
  have h1: "db open_state = Some 0" by (simp add: open_state_def)
  have h2: "answers (driver_ok :: unit driver) open_state (BEGIN_TRANSACTION 0) ok_reply"
    by (simp add: answers_def driver_ok_def)
  have h3: "cb_err (ok_reply :: unit reply) = None" by (simp add: ok_reply_def)
  have h4: "fn_rejecting (Error ''boom'') ?st1 = (Returns (Reject (Error ''boom'') # []), ?st1)"
    by (simp add: fn_rejecting_def)
  have h5: "db ?st1 = Some 0" by (simp add: open_state_def issue_def)
  have h6: "answers (driver_ok :: unit driver) ?st1 (ROLLBACK_TRANSACTION 0) ok_reply"
    by (simp add: answers_def driver_ok_def)
  from transaction_rollback_on_rejection [where fn = "fn_rejecting (Error ''boom'')", OF h1 h2 h3 h4 h5 h6] h1 h2 h3 h4
  show ?thesis by simp
qed

text \<open>
  C1 as stated fails when the rollback fails: the promise of \<open>transaction\<close> then rejects with
  the error of the rollback and not with the error of \<open>fn\<close>.
\<close>

theorem transaction_rollback_failure_counterexample:
  "fst (transaction (driver_failing_on (ROLLBACK_TRANSACTION 0) (Error ''SQLITE_BUSY'') :: unit driver)
          (fn_rejecting (Error ''boom'')) open_state) = [Reject (Error ''SQLITE_BUSY'')]
   \<and> fst (transaction (driver_failing_on (ROLLBACK_TRANSACTION 0) (Error ''SQLITE_BUSY'') :: unit driver)
          (fn_rejecting (Error ''boom'')) open_state) \<noteq> [Reject (Error ''boom'')]"
  by (simp add: transaction_def Database_exec_def err_callback_def chain_defs demo_defs)


text \<open>
  When \<open>fn\<close> throws instead of returning a promise, the handler that \<open>then\<close> was given throws
  before \<open>catch\<close> is reached: the promise rejects with what \<open>fn\<close> threw, and the last call
  that reached the driver is \<open>BEGIN TRANSACTION\<close>.
\<close>

lemma transaction_fn_throws:
  "transaction (driver_ok :: unit driver) (fn_throwing (Error ''boom'')) open_state
     = ([Reject (Error ''boom'')], issue (BEGIN_TRANSACTION 0) open_state)"
  by (simp add: transaction_def Database_exec_def err_callback_def chain_defs demo_defs)

text \<open>
  C10. \<open>transaction(fn)\<close> on a handle without a connection rejects with the \<open>NotOpen\<close> error
  of \<open>exec\<close>. The state comes back as it was, whatever \<open>fn\<close> is: \<open>fn\<close> is not run, and no
  call, not even \<open>BEGIN TRANSACTION\<close>, reaches the driver.
\<close>

theorem transaction_not_open:
  assumes "db st = None"
  shows "transaction drv fn st = ([Reject (NotOpen ''exec'')], st)"
  using assms
  by (simp add: transaction_def Database_exec_def NotOpen_def chain_defs)

theorem transaction_not_open_witness:
  "db closed_state = None
   \<and> transaction (driver_ok :: unit driver) fn_insert closed_state
       = ([Reject (Error ''Database.exec: database is not open'')], closed_state)
   \<and> calls (snd (fn_insert closed_state)) \<noteq> calls closed_state"
proof -
  have h: "db closed_state = None" by (simp add: closed_state_def)
  from transaction_not_open [OF h, of driver_ok fn_insert] h
  show ?thesis by (simp add: NotOpen_def fn_insert_def issue_def)
qed

section \<open>Scoped close\<close>

text \<open>
  C2 (as amended). \<open>close(fn)\<close> on an open handle, where \<open>fn\<close> returns a promise that settles
  with \<open>x\<close> (resolved with a result, or rejected with an error) and the handle still has a
  connection then: \<open>close\<close> is issued to the driver. When the driver closes without error,
  the connection is detached and the promise of \<open>close(fn)\<close> settles with the same \<open>x\<close>. When
  \<open>fn\<close> failed and the driver reports an error on closing, the promise rejects with the
  driver's error and the connection stays attached.
\<close>

theorem close_fn_releases:
  assumes "db st = Some c"
    and "fn st = (Returns (x # ps), st1)"
    and "db st1 = Some c1"
    and "answers drv st1 (OnDb c1 M_close []) r"
  shows "(cb_err r = None \<longrightarrow>
            Database_close_fn drv fn st = (Returns [x], (issue (OnDb c1 M_close []) st1)\<lparr>db := None\<rparr>))
       \<and> (\<forall>e e2. cb_err r = Some e2 \<and> x = Reject e \<longrightarrow>
            Database_close_fn drv fn st = (Returns [Reject e2], issue (OnDb c1 M_close []) st1))"
  using assms
  by (cases x)
     (auto simp add: Database_close_fn_def Database_close_def answers_def close_callback_def
        chain_defs issue_def split: option.splits)

theorem close_fn_releases_witness:
  "db open_state = Some 0
   \<and> fn_resolving 7 open_state = (Returns [Resolve 7], open_state)
   \<and> answers (driver_ok :: unit driver) open_state (OnDb 0 M_close []) ok_reply
   \<and> cb_err (ok_reply :: unit reply) = None
   \<and> Database_close_fn (driver_ok :: unit driver) (fn_resolving 7) open_state
       = (Returns [Resolve 7], (issue (OnDb 0 M_close []) open_state)\<lparr>db := None\<rparr>)
   \<and> Database_close_fn (driver_ok :: unit driver) (fn_rejecting (Error ''boom'')) open_state
       = (Returns [Reject (Error ''boom'')], (issue (OnDb 0 M_close []) open_state)\<lparr>db := None\<rparr>)"
proof -
  have h1: "db open_state = Some 0" by (simp add: open_state_def)
  have h2: "fn_resolving 7 open_state = (Returns (Resolve 7 # []), open_state)"
    by (simp add: fn_resolving_def)
  have h3: "answers (driver_ok :: unit driver) open_state (OnDb 0 M_close []) ok_reply"
    by (simp add: answers_def driver_ok_def)
  have h4: "cb_err (ok_reply :: unit reply) = None" by (simp add: ok_reply_def)
  have h5: "fn_rejecting (Error ''boom'') open_state = (Returns (Reject (Error ''boom'') # []), open_state)"
    by (simp add: fn_rejecting_def)
  from close_fn_releases [where fn = "fn_resolving 7", OF h1 h2 h1 h3]
    close_fn_releases [where fn = "fn_rejecting (Error ''boom'')", OF h1 h5 h1 h3] h1 h2 h3 h4
  show ?thesis by simp
qed

text \<open>
  C2 as stated fails when the driver reports an error on closing: after \<open>fn\<close> has failed,
  the promise of \<open>close(fn)\<close> rejects with the driver's error, not with the error of \<open>fn\<close>,
  and the connection is still attached.
\<close>

theorem close_fn_close_failure_counterexample:
  "Database_close_fn (driver_failing_on (OnDb 0 M_close []) (Error ''SQLITE_BUSY'') :: unit driver)
      (fn_rejecting (Error ''boom'')) open_state
     = (Returns [Reject (Error ''SQLITE_BUSY'')], issue (OnDb 0 M_close []) open_state)
   \<and> db (snd (Database_close_fn (driver_failing_on (OnDb 0 M_close []) (Error ''SQLITE_BUSY'') :: unit driver)
      (fn_rejecting (Error ''boom'')) open_state)) = Some 0"
  by (simp add: Database_close_fn_def Database_close_def close_callback_def chain_defs demo_defs)

text \<open>
  When \<open>fn\<close> throws instead of returning a promise, \<open>close(fn)\<close> throws the same error, returns no
  promise, and asks nothing of the driver.
\<close>

lemma close_fn_throws:
  "Database_close_fn (driver_ok :: unit driver) (fn_throwing (Error ''boom'')) open_state
     = (Throws (Error ''boom''), open_state)"
  by (simp add: Database_close_fn_def demo_defs)

section \<open>Arguments and lifecycle\<close>

text \<open>
  C7. When the argument list is empty or its last element is not a function, \<open>each\<close>
  throws a \<open>TypeError\<close> (the \<open>InvalidArgument\<close> of the specification), on the Database
  and on the Statement. It throws instead of returning a promise, in every state, with a
  connection or without, and the state is unchanged: nothing is asked of the driver.
\<close>

theorem each_requires_function:
  assumes "args = [] \<or> typeof (last args) \<noteq> T_function"
  shows "Database_each drv args st
           = (Throws (TypeError ''Database.each: last arg is not a function''), st)
       \<and> Statement_each drv this args st
           = (Throws (TypeError ''Statement.each: last arg is not a function''), st)"
  using assms by (auto simp add: Database_each_def Statement_each_def)

theorem each_requires_function_witness:
  "typeof (last [StringV ''SELECT 1'', NumberV 3]) \<noteq> T_function
   \<and> Database_each (driver_ok :: unit driver) [StringV ''SELECT 1'', NumberV 3] closed_state
       = (Throws (TypeError ''Database.each: last arg is not a function''), closed_state)
   \<and> Statement_each (driver_ok :: unit driver) \<lparr>statement = 1\<rparr> [StringV ''SELECT 1'', NumberV 3] closed_state
       = (Throws (TypeError ''Statement.each: last arg is not a function''), closed_state)
   \<and> Database_each (driver_ok :: unit driver) [] open_state
       = (Throws (TypeError ''Database.each: last arg is not a function''), open_state)"
proof -
  have h1: "[StringV ''SELECT 1'', NumberV 3] = [] \<or> typeof (last [StringV ''SELECT 1'', NumberV 3]) \<noteq> T_function"
    by simp
  have h2: "([] :: jsval list) = [] \<or> typeof (last []) \<noteq> T_function" by simp
  from each_requires_function [OF h1, of "driver_ok :: unit driver" closed_state "\<lparr>statement = 1\<rparr>"]
    each_requires_function [OF h2, of "driver_ok :: unit driver" open_state "\<lparr>statement = 1\<rparr>"]
  show ?thesis by simp
qed

text \<open>
  C4. On a handle without a connection, \<open>run\<close>, \<open>get\<close>, \<open>all\<close>, \<open>each\<close> (given a trailing
  function), \<open>exec\<close>, \<open>prepare\<close> and \<open>close\<close> (with or without \<open>fn\<close>) return a promise that
  rejects with their \<open>NotOpen\<close> error, and ask nothing of the driver. After a \<open>close()\<close> that
  succeeded, a second \<open>close()\<close> rejects with \<open>NotOpen\<close>.
\<close>

theorem not_open_rejections:
  assumes "db st = None"
  shows "Database_run drv args st = ([Reject (NotOpen ''run'')], st)
       \<and> Database_get drv args st = ([Reject (NotOpen ''get'')], st)
       \<and> Database_all drv args st = ([Reject (NotOpen ''all'')], st)
       \<and> (args \<noteq> [] \<and> typeof (last args) = T_function \<longrightarrow>
            Database_each drv args st = (Returns [Reject (NotOpen ''each'')], st))
       \<and> Database_exec drv sql st = ([Reject (NotOpen ''exec'')], st)
       \<and> Database_prepare drv args st = ([Reject (NotOpen ''prepare'')], st)
       \<and> Database_close drv st = ([Reject (NotOpen ''close'')], st)
       \<and> Database_close_fn drv fn st = (Returns [Reject (NotOpen ''close'')], st)
       \<and> (db st' = Some c \<and> answers drv st' (OnDb c M_close []) r \<and> cb_err r = None \<longrightarrow>
            fst (Database_close drv (snd (Database_close drv st'))) = [Reject (NotOpen ''close'')])"
  using assms
  by (simp add: Database_run_def Database_get_def Database_all_def Database_each_def Database_exec_def
      Database_prepare_def Database_close_def Database_close_fn_def NotOpen_def Promise_reject_def
      answers_def close_callback_def)

theorem not_open_rejections_witness:
  "db closed_state = None
   \<and> Database_run (driver_ok :: unit driver) [StringV ''SELECT 1'', FunctionV 0] closed_state
       = ([Reject (Error ''Database.run: database is not open'')], closed_state)
   \<and> Database_get (driver_ok :: unit driver) [StringV ''SELECT 1'', FunctionV 0] closed_state
       = ([Reject (Error ''Database.get: database is not open'')], closed_state)
   \<and> Database_all (driver_ok :: unit driver) [StringV ''SELECT 1'', FunctionV 0] closed_state
       = ([Reject (Error ''Database.all: database is not open'')], closed_state)
   \<and> Database_each (driver_ok :: unit driver) [StringV ''SELECT 1'', FunctionV 0] closed_state
       = (Returns [Reject (Error ''Database.each: database is not open'')], closed_state)
   \<and> Database_exec (driver_ok :: unit driver) ''SELECT 1'' closed_state
       = ([Reject (Error ''Database.exec: database is not open'')], closed_state)
   \<and> Database_prepare (driver_ok :: unit driver) [StringV ''SELECT 1'', FunctionV 0] closed_state
       = ([Reject (Error ''Database.prepare: database is not open'')], closed_state)
   \<and> Database_close (driver_ok :: unit driver) closed_state
       = ([Reject (Error ''Database.close: database is not open'')], closed_state)
   \<and> Database_close_fn (driver_ok :: unit driver) fn_insert closed_state
       = (Returns [Reject (Error ''Database.close: database is not open'')], closed_state)
   \<and> fst (Database_close (driver_ok :: unit driver) (snd (Database_close (driver_ok :: unit driver) open_state)))
       = [Reject (Error ''Database.close: database is not open'')]"
proof -
  have h: "db closed_state = None" by (simp add: closed_state_def)
  have a: "db open_state = Some 0 \<and> answers (driver_ok :: unit driver) open_state (OnDb 0 M_close []) ok_reply
             \<and> cb_err (ok_reply :: unit reply) = None"
    by (simp add: open_state_def answers_def driver_ok_def ok_reply_def)
  from not_open_rejections [OF h, where drv = "driver_ok :: unit driver"
      and args = "[StringV ''SELECT 1'', FunctionV 0]" and sql = "''SELECT 1''" and fn = fn_insert
      and st' = open_state and c = 0 and r = ok_reply] h a
  show ?thesis by (simp add: NotOpen_def)
qed

text \<open>
  C5. When the driver reports an error on opening, the promise of \<open>open\<close> rejects with that
  error and the handle has no connection (and its file name is untouched); when the driver
  reports an error on closing, the promise of \<open>close()\<close> rejects with that error and the
  handle keeps its connection.
\<close>

theorem open_close_atomic_on_failure:
  assumes "cb_err r = Some e"
  shows "(db st = None \<and> (typeof mode = T_undefined \<or> typeof mode = T_number)
            \<and> answers drv st (New fname (default_mode flags mode)) r \<longrightarrow>
          fst (Database_open drv flags fname mode st) = [Reject e]
            \<and> db (snd (Database_open drv flags fname mode st)) = None
            \<and> filename (snd (Database_open drv flags fname mode st)) = filename st)
       \<and> (db st = Some c \<and> answers drv st (OnDb c M_close []) r \<longrightarrow>
          fst (Database_close drv st) = [Reject e]
            \<and> db (snd (Database_close drv st)) = Some c)"
  using assms
  by (auto simp add: Database_open_def Database_close_def answers_def open_callback_def
      close_callback_def issue_def Let_def)

theorem open_close_atomic_on_failure_witness:
  "cb_err (error_reply (Error ''SQLITE_CANTOPEN'') :: unit reply) = Some (Error ''SQLITE_CANTOPEN'')
   \<and> fst (Database_open (driver_failing (Error ''SQLITE_CANTOPEN'') :: unit driver) sqlite_flags ''test.db'' UndefinedV closed_state)
       = [Reject (Error ''SQLITE_CANTOPEN'')]
   \<and> db (snd (Database_open (driver_failing (Error ''SQLITE_CANTOPEN'') :: unit driver) sqlite_flags ''test.db'' UndefinedV closed_state))
       = None
   \<and> fst (Database_close (driver_failing (Error ''SQLITE_CANTOPEN'') :: unit driver) open_state)
       = [Reject (Error ''SQLITE_CANTOPEN'')]
   \<and> db (snd (Database_close (driver_failing (Error ''SQLITE_CANTOPEN'') :: unit driver) open_state)) = Some 0"
proof -
  let ?e = "Error ''SQLITE_CANTOPEN''"
  have h: "cb_err (error_reply ?e :: unit reply) = Some ?e" by (simp add: error_reply_def)
  have a: "db closed_state = None \<and> (typeof UndefinedV = T_undefined \<or> typeof UndefinedV = T_number)
           \<and> answers (driver_failing ?e :: unit driver) closed_state (New ''test.db'' (default_mode sqlite_flags UndefinedV)) (error_reply ?e)"
    by (simp add: closed_state_def answers_def driver_failing_def)
  have b: "db open_state = Some 0
           \<and> answers (driver_failing ?e :: unit driver) open_state (OnDb 0 M_close []) (error_reply ?e)"
    by (simp add: open_state_def answers_def driver_failing_def)
  from open_close_atomic_on_failure [OF h, where drv = "driver_failing ?e" and st = closed_state
      and mode = UndefinedV and fname = "''test.db''" and flags = sqlite_flags]
    open_close_atomic_on_failure [OF h, where drv = "driver_failing ?e" and st = open_state and c = 0]
    h a b
  show ?thesis by simp
qed

section \<open>Settling\<close>

text \<open>
  C3. Under the driver's contract that every callback it is handed is invoked exactly
  once, each promise-returning operation of the Database and of the Statement (\<open>open\<close>,
  \<open>close()\<close>, \<open>run\<close>, \<open>get\<close>, \<open>all\<close>, \<open>each\<close>, \<open>exec\<close>, \<open>prepare\<close>, \<open>bind\<close>, \<open>reset\<close>,
  \<open>finalize\<close>) makes exactly one call to the \<open>resolve\<close> or \<open>reject\<close> of the promise it
  returns: the promise is settled once, not left pending and not settled again. For
  \<open>each\<close> this is the promise returned when the last argument is a function.
\<close>

theorem settled_exactly_once:
  assumes once: "\<And>h c. exactly_once drv h c"
  shows "length (fst (Database_open drv flags fname mode st)) = 1
       \<and> length (fst (Database_close drv st)) = 1
       \<and> length (fst (Database_run drv args st)) = 1
       \<and> length (fst (Database_get drv args st)) = 1
       \<and> length (fst (Database_all drv args st)) = 1
       \<and> (args \<noteq> [] \<and> typeof (last args) = T_function \<longrightarrow>
            (case fst (Database_each drv args st) of Returns p \<Rightarrow> length p = 1 | Throws e \<Rightarrow> False))
       \<and> length (fst (Database_exec drv sql st)) = 1
       \<and> length (fst (Database_prepare drv args st)) = 1
       \<and> length (fst (Statement_bind drv this args st)) = 1
       \<and> length (fst (Statement_reset drv this st)) = 1
       \<and> length (fst (Statement_finalize drv this st)) = 1
       \<and> length (fst (Statement_run drv this args st)) = 1
       \<and> length (fst (Statement_get drv this args st)) = 1
       \<and> length (fst (Statement_all drv this args st)) = 1
       \<and> (args \<noteq> [] \<and> typeof (last args) = T_function \<longrightarrow>
            (case fst (Statement_each drv this args st) of Returns p \<Rightarrow> length p = 1 | Throws e \<Rightarrow> False))"
proof -
  have len: "\<And>h c. length (drv h c) = 1" using once by (simp add: exactly_once_def)
  have cbs: "\<And>cb h c s. length (fst (callbacks cb (drv h c) s)) = 1"
    by (simp add: length_callbacks len)
  have cbs2: "\<And>cb h c s. (case fst (returns (callbacks cb (drv h c) s)) of
                               Returns p \<Rightarrow> length p = 1 | Throws e \<Rightarrow> False)"
  proof -
    fix cb :: "'a reply \<Rightarrow> state \<Rightarrow> 'b settle \<times> state" and h c s
    obtain p st' where e: "callbacks cb (drv h c) s = (p, st')" by (cases "callbacks cb (drv h c) s")
    with cbs [of cb h c s] have "length p = 1" by simp
    with e show "case fst (returns (callbacks cb (drv h c) s)) of
                   Returns p \<Rightarrow> length p = 1 | Throws e \<Rightarrow> False"
      by (simp add: returns_def)
  qed
  have 1: "length (fst (Database_open drv flags fname mode st)) = 1"
    by (simp add: Database_open_def Let_def Promise_reject_def cbs)
  have 2: "length (fst (Database_close drv st)) = 1"
    by (simp add: Database_close_def Promise_reject_def cbs split: option.splits)
  have 3: "length (fst (Database_run drv args st)) = 1"
    by (simp add: Database_run_def cbs split: option.splits)
  have 4: "length (fst (Database_get drv args st)) = 1"
    by (simp add: Database_get_def cbs split: option.splits)
  have 5: "length (fst (Database_all drv args st)) = 1"
    by (simp add: Database_all_def cbs split: option.splits)
  have 6: "args \<noteq> [] \<and> typeof (last args) = T_function \<longrightarrow>
            (case fst (Database_each drv args st) of Returns p \<Rightarrow> length p = 1 | Throws e \<Rightarrow> False)"
    using cbs2 [of each_callback] by (simp add: Database_each_def split: option.splits)
  have 7: "length (fst (Database_exec drv sql st)) = 1"
    by (simp add: Database_exec_def cbs split: option.splits)
  have 8: "length (fst (Database_prepare drv args st)) = 1"
    by (simp add: Database_prepare_def cbs split: option.splits)
  have 9: "length (fst (Statement_bind drv this args st)) = 1"
    by (simp add: Statement_bind_def cbs)
  have 10: "length (fst (Statement_reset drv this st)) = 1"
    by (simp add: Statement_reset_def cbs)
  have 11: "length (fst (Statement_finalize drv this st)) = 1"
    by (simp add: Statement_finalize_def cbs)
  have 12: "length (fst (Statement_run drv this args st)) = 1"
    by (simp add: Statement_run_def cbs)
  have 13: "length (fst (Statement_get drv this args st)) = 1"
    by (simp add: Statement_get_def cbs)
  have 14: "length (fst (Statement_all drv this args st)) = 1"
    by (simp add: Statement_all_def cbs)
  have 15: "args \<noteq> [] \<and> typeof (last args) = T_function \<longrightarrow>
            (case fst (Statement_each drv this args st) of Returns p \<Rightarrow> length p = 1 | Throws e \<Rightarrow> False)"
    using cbs2 [of each_callback] by (simp add: Statement_each_def)
  from 1 2 3 4 5 6 7 8 9 10 11 12 13 14 15 show ?thesis by blast
qed

theorem settled_exactly_once_witness:
  "(\<forall>h c. exactly_once (driver_ok :: unit driver) h c)
   \<and> length (fst (Database_open (driver_ok :: unit driver) sqlite_flags ''test.db'' UndefinedV closed_state)) = 1
   \<and> length (fst (Database_open (driver_ok :: unit driver) sqlite_flags ''test.db'' (StringV ''rw'') closed_state)) = 1
   \<and> length (fst (Database_close (driver_ok :: unit driver) open_state)) = 1
   \<and> length (fst (Database_run (driver_ok :: unit driver) [StringV ''SELECT 1'', FunctionV 0] open_state)) = 1
   \<and> length (fst (Database_run (driver_ok :: unit driver) [StringV ''SELECT 1'', FunctionV 0] closed_state)) = 1
   \<and> (case fst (Database_each (driver_ok :: unit driver) [StringV ''SELECT 1'', FunctionV 0] open_state) of
         Returns p \<Rightarrow> length p = 1 | Throws e \<Rightarrow> False)
   \<and> length (fst (Statement_reset (driver_ok :: unit driver) \<lparr>statement = 1\<rparr> open_state)) = 1
   \<and> length (fst (Statement_finalize (driver_ok :: unit driver) \<lparr>statement = 1\<rparr> open_state)) = 1"
proof -
  have h: "\<And>h c. exactly_once (driver_ok :: unit driver) h c"
    by (simp add: exactly_once_def driver_ok_def)
  have a: "[StringV ''SELECT 1'', FunctionV 0] \<noteq> [] \<and> typeof (last [StringV ''SELECT 1'', FunctionV 0]) = T_function"
    by simp
  from settled_exactly_once [OF h, where st = open_state and args = "[StringV ''SELECT 1'', FunctionV 0]"
      and this = "\<lparr>statement = 1\<rparr>"]
    settled_exactly_once [OF h, where st = closed_state and args = "[StringV ''SELECT 1'', FunctionV 0]"
      and fname = "''test.db''" and mode = UndefinedV and flags = sqlite_flags]
    settled_exactly_once [OF h, where st = closed_state and fname = "''test.db''" and mode = "StringV ''rw''" and flags = sqlite_flags]
    h a
  show ?thesis by simp
qed

section \<open>Driver errors\<close>

text \<open>
  C6 (as amended). Every operation that hands one callback to the driver, other than the
  \<open>reset\<close> of a Statement, returns a promise that rejects with the driver's error object,
  unchanged, when the driver reports an error: \<open>open\<close>, \<open>close()\<close>, \<open>run\<close>, \<open>get\<close>, \<open>all\<close>,
  \<open>each\<close>, \<open>exec\<close>, \<open>prepare\<close> and \<open>delete\<close> of the Database, and \<open>bind\<close>, \<open>finalize\<close>, \<open>run\<close>,
  \<open>get\<close>, \<open>all\<close> and \<open>each\<close> of the Statement. The callback of \<open>reset\<close> takes no error
  parameter: its promise resolves with the Statement whatever the driver reports.
\<close>

theorem driver_errors_propagate:
  assumes "cb_err r = Some e" and "db st = Some c" and "db st0 = None"
  shows "((typeof mode = T_undefined \<or> typeof mode = T_number)
            \<and> answers drv st0 (New fname (default_mode flags mode)) r \<longrightarrow>
          fst (Database_open drv flags fname mode st0) = [Reject e])
       \<and> (answers drv st (OnDb c M_close []) r \<longrightarrow> fst (Database_close drv st) = [Reject e])
       \<and> (answers drv st (OnDb c M_run args) r \<longrightarrow> fst (Database_run drv args st) = [Reject e])
       \<and> (answers drv st (OnDb c M_get args) r \<longrightarrow> fst (Database_get drv args st) = [Reject e])
       \<and> (answers drv st (OnDb c M_all args) r \<longrightarrow> fst (Database_all drv args st) = [Reject e])
       \<and> (args \<noteq> [] \<and> typeof (last args) = T_function \<and> answers drv st (OnDb c M_each args) r \<longrightarrow>
            fst (Database_each drv args st) = Returns [Reject e])
       \<and> (answers drv st (OnDb c M_exec [StringV sql]) r \<longrightarrow> fst (Database_exec drv sql st) = [Reject e])
       \<and> (answers drv st (OnDb c M_prepare args) r \<longrightarrow> fst (Database_prepare drv args st) = [Reject e])
       \<and> (answers drv st (OnDb c M_exec [StringV (delete_sql ident table)]) r \<longrightarrow>
            fst (Database_delete drv ident table st) = [Reject e])
       \<and> (answers drv st (OnStmt (statement this) M_bind args) r \<longrightarrow>
            fst (Statement_bind drv this args st) = [Reject e])
       \<and> (answers drv st (OnStmt (statement this) M_finalize []) r \<longrightarrow>
            fst (Statement_finalize drv this st) = [Reject e])
       \<and> (answers drv st (OnStmt (statement this) M_run args) r \<longrightarrow>
            fst (Statement_run drv this args st) = [Reject e])
       \<and> (answers drv st (OnStmt (statement this) M_get args) r \<longrightarrow>
            fst (Statement_get drv this args st) = [Reject e])
       \<and> (answers drv st (OnStmt (statement this) M_all args) r \<longrightarrow>
            fst (Statement_all drv this args st) = [Reject e])
       \<and> (args \<noteq> [] \<and> typeof (last args) = T_function
            \<and> answers drv st (OnStmt (statement this) M_each args) r \<longrightarrow>
            fst (Statement_each drv this args st) = Returns [Reject e])
       \<and> (answers drv st (OnStmt (statement this) M_reset []) r \<longrightarrow>
            fst (Statement_reset drv this st) = [Resolve this])"
proof -
  note cbs = open_callback_def close_callback_def run_callback_def get_callback_def all_callback_def
    each_callback_def err_callback_def prepare_callback_def void_callback_def bind_callback_def
    finalize_callback_def reset_callback_def
  have 1: "(typeof mode = T_undefined \<or> typeof mode = T_number)
            \<and> answers drv st0 (New fname (default_mode flags mode)) r \<longrightarrow>
          fst (Database_open drv flags fname mode st0) = [Reject e]"
    using assms by (auto simp add: Database_open_def Let_def answers_def cbs)
  have 2: "answers drv st (OnDb c M_close []) r \<longrightarrow> fst (Database_close drv st) = [Reject e]"
    using assms by (simp add: Database_close_def answers_def cbs)
  have 3: "answers drv st (OnDb c M_run args) r \<longrightarrow> fst (Database_run drv args st) = [Reject e]"
    using assms by (simp add: Database_run_def answers_def cbs)
  have 4: "answers drv st (OnDb c M_get args) r \<longrightarrow> fst (Database_get drv args st) = [Reject e]"
    using assms by (simp add: Database_get_def answers_def cbs)
  have 5: "answers drv st (OnDb c M_all args) r \<longrightarrow> fst (Database_all drv args st) = [Reject e]"
    using assms by (simp add: Database_all_def answers_def cbs)
  have 6: "args \<noteq> [] \<and> typeof (last args) = T_function \<and> answers drv st (OnDb c M_each args) r \<longrightarrow>
            fst (Database_each drv args st) = Returns [Reject e]"
    using assms by (simp add: Database_each_def answers_def returns_def cbs)
  have 7: "answers drv st (OnDb c M_exec [StringV sql]) r \<longrightarrow> fst (Database_exec drv sql st) = [Reject e]"
    using assms by (simp add: Database_exec_def answers_def cbs)
  have 8: "answers drv st (OnDb c M_prepare args) r \<longrightarrow> fst (Database_prepare drv args st) = [Reject e]"
    using assms by (simp add: Database_prepare_def answers_def cbs)
  have 9: "answers drv st (OnDb c M_exec [StringV (delete_sql ident table)]) r \<longrightarrow>
            fst (Database_delete drv ident table st) = [Reject e]"
    using assms by (simp add: Database_delete_def answers_def returns_def adopt_def cbs)
  have 10: "answers drv st (OnStmt (statement this) M_bind args) r \<longrightarrow>
            fst (Statement_bind drv this args st) = [Reject e]"
    using assms by (simp add: Statement_bind_def answers_def cbs)
  have 11: "answers drv st (OnStmt (statement this) M_finalize []) r \<longrightarrow>
            fst (Statement_finalize drv this st) = [Reject e]"
    using assms by (simp add: Statement_finalize_def answers_def cbs)
  have 12: "answers drv st (OnStmt (statement this) M_run args) r \<longrightarrow>
            fst (Statement_run drv this args st) = [Reject e]"
    using assms by (simp add: Statement_run_def answers_def cbs)
  have 13: "answers drv st (OnStmt (statement this) M_get args) r \<longrightarrow>
            fst (Statement_get drv this args st) = [Reject e]"
    using assms by (simp add: Statement_get_def answers_def cbs)
  have 14: "answers drv st (OnStmt (statement this) M_all args) r \<longrightarrow>
            fst (Statement_all drv this args st) = [Reject e]"
    using assms by (simp add: Statement_all_def answers_def cbs)
  have 15: "args \<noteq> [] \<and> typeof (last args) = T_function
            \<and> answers drv st (OnStmt (statement this) M_each args) r \<longrightarrow>
            fst (Statement_each drv this args st) = Returns [Reject e]"
    using assms by (simp add: Statement_each_def answers_def returns_def cbs)
  have 16: "answers drv st (OnStmt (statement this) M_reset []) r \<longrightarrow>
            fst (Statement_reset drv this st) = [Resolve this]"
    using assms by (simp add: Statement_reset_def answers_def cbs)
  from 1 2 3 4 5 6 7 8 9 10 11 12 13 14 15 16 show ?thesis by blast
qed

theorem driver_errors_propagate_witness:
  "cb_err (error_reply (Error ''SQLITE_ERROR'') :: unit reply) = Some (Error ''SQLITE_ERROR'')
   \<and> db open_state = Some 0 \<and> db closed_state = None
   \<and> fst (Database_open (driver_failing (Error ''SQLITE_ERROR'') :: unit driver) sqlite_flags ''test.db'' UndefinedV closed_state)
       = [Reject (Error ''SQLITE_ERROR'')]
   \<and> fst (Database_run (driver_failing (Error ''SQLITE_ERROR'') :: unit driver) [StringV ''SELEC 1''] open_state)
       = [Reject (Error ''SQLITE_ERROR'')]
   \<and> fst (Database_delete (driver_failing (Error ''SQLITE_ERROR'') :: unit driver) ''1,2'' ''items'' open_state)
       = [Reject (Error ''SQLITE_ERROR'')]
   \<and> fst (Statement_finalize (driver_failing (Error ''SQLITE_ERROR'') :: unit driver) \<lparr>statement = 1\<rparr> open_state)
       = [Reject (Error ''SQLITE_ERROR'')]
   \<and> fst (Statement_reset (driver_failing (Error ''SQLITE_ERROR'') :: unit driver) \<lparr>statement = 1\<rparr> open_state)
       = [Resolve \<lparr>statement = 1\<rparr>]"
proof -
  let ?e = "Error ''SQLITE_ERROR''"
  have h1: "cb_err (error_reply ?e :: unit reply) = Some ?e" by (simp add: error_reply_def)
  have h2: "db open_state = Some 0" by (simp add: open_state_def)
  have h3: "db closed_state = None" by (simp add: closed_state_def)
  have a: "\<And>s c. answers (driver_failing ?e :: unit driver) s c (error_reply ?e)"
    by (simp add: answers_def driver_failing_def)
  have t: "typeof UndefinedV = T_undefined" by simp
  from driver_errors_propagate [OF h1 h2 h3, where drv = "driver_failing ?e" and mode = UndefinedV
      and flags = sqlite_flags and fname = "''test.db''" and args = "[StringV ''SELEC 1'']" and ident = "''1,2''"
      and table = "''items''" and this = "\<lparr>statement = 1\<rparr>"] h1 h2 h3 a t
  show ?thesis by simp
qed

text \<open>
  C6 as stated fails for \<open>reset\<close>: the driver reports an error and the promise resolves.
\<close>

theorem reset_ignores_error_counterexample:
  "answers (driver_failing (Error ''SQLITE_MISUSE'') :: unit driver) open_state (OnStmt 1 M_reset [])
      (error_reply (Error ''SQLITE_MISUSE''))
   \<and> cb_err (error_reply (Error ''SQLITE_MISUSE'') :: unit reply) = Some (Error ''SQLITE_MISUSE'')
   \<and> fst (Statement_reset (driver_failing (Error ''SQLITE_MISUSE'') :: unit driver) \<lparr>statement = 1\<rparr> open_state)
       = [Resolve \<lparr>statement = 1\<rparr>]
   \<and> fst (Statement_reset (driver_failing (Error ''SQLITE_MISUSE'') :: unit driver) \<lparr>statement = 1\<rparr> open_state)
       \<noteq> [Reject (Error ''SQLITE_MISUSE'')]"
  by (simp add: Statement_reset_def reset_callback_def demo_defs)

section \<open>The query helper on the example of the specification\<close>

text \<open>
  C8. With \<open>options = {key: "foo", page: "2", pagecap: "5"}\<close>, table \<open>items\<close>, keys \<open>["name"]\<close>
  and select \<open>*\<close>, the helper on an open handle first runs the count statement
  \<open>SELECT COUNT(*) AS count FROM items WHERE (name LIKE "%foo%")\<close> with \<open>get\<close>, then the row
  statement \<open>SELECT * FROM items WHERE (name LIKE "%foo%") LIMIT 5 OFFSET 5\<close> with \<open>all\<close>, and
  when both succeed and the count row has \<open>count = n\<close>, it resolves with \<open>allcount = n\<close>,
  \<open>page = 2\<close>, \<open>pagecap = 5\<close>, \<open>pagecount = ceil(n / 5)\<close> and the rows of the second statement.
\<close>

theorem query_example_statements:
  assumes \<open>db st = Some c\<close>
    and \<open>answers drv st
           (OnDb c M_get [StringV ''SELECT COUNT(*) AS count FROM items WHERE (name LIKE "%foo%")'']) r1\<close>
    and \<open>cb_err r1 = None\<close> and \<open>cb_row r1 = Some cr\<close> and \<open>count_of cr = Some n\<close>
    and \<open>answers drv
           (issue (OnDb c M_get [StringV ''SELECT COUNT(*) AS count FROM items WHERE (name LIKE "%foo%")'']) st)
           (OnDb c M_all [StringV ''SELECT * FROM items WHERE (name LIKE "%foo%") LIMIT 5 OFFSET 5'']) r2\<close>
    and \<open>cb_err r2 = None\<close>
  shows \<open>queryWithSelect drv count_of
           (Some \<lparr>key = Some ''foo'', condition = None, page = Some ''2'', pagecap = Some ''5''\<rparr>)
           ''items'' [''name''] ''*'' st
         = ([Resolve \<lparr>allcount = Some n, page = Some (Num 2), pagecap = Some (Num 5),
                      pagecount = Some (Num \<lceil>real_of_int n / 5\<rceil>), rows = cb_rows r2\<rparr>],
            issue (OnDb c M_all [StringV ''SELECT * FROM items WHERE (name LIKE "%foo%") LIMIT 5 OFFSET 5''])
              (issue (OnDb c M_get [StringV ''SELECT COUNT(*) AS count FROM items WHERE (name LIKE "%foo%")''])
                 st))\<close>
proof -
  have p2: "parseInt ''2'' = Num 2" and p5: "parseInt ''5'' = Num 5"
    by (simp_all add: parseInt_def is_space_def is_digit_def digits_value_def digit_value_def)
  have s5: "String_jsnum (Num 5) = ''5''"
    by (simp add: String_jsnum_def string_of_nat.simps digit_def)
  show ?thesis
    using assms
    by (simp add: queryWithSelect_def query_sql_def query_sqlcount_def query_condition_def truthy_def
        p2 p5 s5 Math_ceil_div_def Database_get_def Database_all_def get_callback_def all_callback_def
        chain_defs answers_def issue_def Let_def)
qed

theorem query_example_statements_witness:
  \<open>db open_state = Some 0
   \<and> cb_row (count_reply 12) = Some 12
   \<and> queryWithSelect (driver_counting 12) Some
        (Some \<lparr>key = Some ''foo'', condition = None, page = Some ''2'', pagecap = Some ''5''\<rparr>)
        ''items'' [''name''] ''*'' open_state
      = ([Resolve \<lparr>allcount = Some 12, page = Some (Num 2), pagecap = Some (Num 5),
                   pagecount = Some (Num 3), rows = [12]\<rparr>],
         issue (OnDb 0 M_all [StringV ''SELECT * FROM items WHERE (name LIKE "%foo%") LIMIT 5 OFFSET 5''])
           (issue (OnDb 0 M_get [StringV ''SELECT COUNT(*) AS count FROM items WHERE (name LIKE "%foo%")''])
              open_state))\<close>
proof -
  have h1: "db open_state = Some 0" by (simp add: open_state_def)
  have h2: "cb_err (count_reply 12) = None" and h3: "cb_row (count_reply 12) = Some 12"
    and h4: "cb_rows (count_reply 12) = [12]"
    by (simp_all add: count_reply_def)
  have h5: "\<And>s c. answers (driver_counting 12) s c (count_reply 12)"
    by (simp add: answers_def driver_counting_def)
  have h6: "Some (12::int) = Some 12" by simp
  from query_example_statements [where count_of = Some, OF h1 h5 h2 h3 h6 h5 h2] h1 h3 h4
  show ?thesis by simp
qed

text \<open>
  C9 at the failing input \<open>options = {condition: "price > 3", page: "1"}\<close>: the rows are
  selected under \<open>price > 3\<close>, and they are counted under \<open>tile_data IS NOT NULL\<close>.
\<close>

theorem count_ignores_options_condition:
  \<open>calls (snd (queryWithSelect (driver_counting 12) Some
                  (Some \<lparr>key = None, condition = Some ''price > 3'', page = Some ''1'', pagecap = None\<rparr>)
                  ''items'' [''name''] ''*'' open_state))
     = calls open_state @
       [OnDb 0 M_get [StringV ''SELECT COUNT(*) AS count FROM items WHERE tile_data IS NOT NULL''],
        OnDb 0 M_all [StringV ''SELECT * FROM items WHERE price > 3 LIMIT 10 OFFSET 0'']]\<close>
proof -
  have p1: "parseInt ''1'' = Num 1" and p10: "parseInt ''10'' = Num 10"
    by (simp_all add: parseInt_def is_space_def is_digit_def digits_value_def digit_value_def)
  have s0: "String_jsnum (Num 0) = ''0''" and s10: "String_jsnum (Num 10) = ''10''"
    by (simp_all add: String_jsnum_def string_of_nat.simps digit_def)
  show ?thesis
    by (simp add: queryWithSelect_def query_sql_def query_sqlcount_def query_condition_def truthy_def
        p1 p10 s0 s10 Math_ceil_div_def Database_get_def Database_all_def get_callback_def all_callback_def
        chain_defs demo_defs Let_def)
qed

text \<open>The count statement is the same whatever \<open>options.condition\<close> is.\<close>

lemma query_sqlcount_ignores_condition:
  "query_sqlcount (options\<lparr>condition := oc\<rparr>) table keys = query_sqlcount options table keys"
  by (simp add: query_sqlcount_def query_condition_def)

end
